theory Spec2Isabelle
  imports Main "HOL-Library.Multiset"
begin

section \<open>The functional task scheduler: data model\<close>

text \<open>
  The module under study is \<^verbatim>\<open>task-operations.ts\<close> with \<^verbatim>\<open>types.ts\<close> and
  \<^verbatim>\<open>state.ts\<close>. Conventions of the embedding:
  \<^item> a \<^verbatim>\<open>Date\<close> is its time value (milliseconds since the epoch), an \<^typ>\<open>int\<close>;
    the invalid date is not represented;
  \<^item> a \<^verbatim>\<open>number\<close> used as a priority is its mathematical value, an \<^typ>\<open>int\<close>
    (the not-a-number value of the floating-point type is not represented);
  \<^item> an optional property (\<^verbatim>\<open>deadline?: Date\<close>) is an \<^typ>\<open>'a option\<close>, \<open>None\<close>
    standing for \<^verbatim>\<open>undefined\<close>;
  \<^item> the two hidden inputs of the module, \<^verbatim>\<open>new Date()\<close> and \<^verbatim>\<open>randomUUID()\<close>,
    are explicit parameters. A function that takes one reading of the clock has the
    value read as its parameter \<open>now\<close> (\<^verbatim>\<open>createTask\<close>, \<^verbatim>\<open>markMultipleCompleted\<close>,
    and \<^verbatim>\<open>updateTaskStatus\<close> for the task that has the given id). The queries that
    evaluate \<^verbatim>\<open>new Date()\<close> once per task (\<^verbatim>\<open>isOverdue\<close> under
    \<^verbatim>\<open>getOverdueTasks\<close> and \<^verbatim>\<open>getStatistics\<close>) take the clock itself, the sequence of
    the values that the coming evaluations return, and hand back what is left of it;
  \<^item> a thrown exception is the \<open>Inl\<close> of a sum type; the \<^verbatim>\<open>Result\<close> union of
    \<^verbatim>\<open>types.ts\<close> is a datatype of its own, since it is an ordinary return value.
\<close>

datatype TaskStatus = Pending | InProgress | Completed

text \<open>A value of type \<^verbatim>\<open>T | null\<close>.\<close>

datatype 'a nullable = Null | Value 'a

text \<open>\<^verbatim>\<open>interface TaskUpdate\<close>: every property is optional; the deadline may also be \<^verbatim>\<open>null\<close>.\<close>

record TaskUpdate =
  title :: "string option"
  description :: "string option"
  priority :: "int option"
  deadline :: "int nullable option"

text \<open>\<^verbatim>\<open>interface Task\<close>; the property \<^verbatim>\<open>id\<close> is named \<open>task_id\<close> here.\<close>

record Task =
  task_id :: string
  title :: string
  description :: string
  priority :: int
  status :: TaskStatus
  createdAt :: int
  deadline :: "int option"
  completedAt :: "int option"

record TaskState =
  tasks :: "Task list"

text \<open>\<^verbatim>\<open>type Result<T, E>\<close>: \<^verbatim>\<open>{ok: true, value}\<close> or \<^verbatim>\<open>{ok: false, error}\<close>.\<close>

datatype ('t, 'e) Result = Ok 't | Err 'e

text \<open>A JavaScript error object, by its kind and message.\<close>

datatype error = Error string | TypeError string

record TaskStatistics =
  total :: nat
  pending :: nat
  inProgress :: nat
  completed :: nat
  overdue :: nat

section \<open>Built-ins of the language\<close>

text \<open>
  \<^verbatim>\<open>String.prototype.trim\<close> removes white space and line terminators at both ends.
  A \<^typ>\<open>char\<close> stands for a code unit below 256; the white-space code units in that
  range are TAB, LF, VT, FF, CR, SPACE and NO-BREAK SPACE.
\<close>

definition isWhiteSpace :: "char \<Rightarrow> bool" where
  "isWhiteSpace c = (of_char c \<in> {9, 10, 11, 12, 13, 32, 160 :: nat})"

definition trim :: "string \<Rightarrow> string" where
  "trim s = rev (dropWhile isWhiteSpace (rev (dropWhile isWhiteSpace s)))"

text \<open>
  \<^verbatim>\<open>Array.prototype.sort\<close> with a comparator. The language requires the sort to be
  stable, and for a comparator that orders the elements consistently every stable sort
  returns the same array; insertion sort stands for the engine's algorithm. An element
  goes before the first element it does not compare greater than, so that elements which
  compare equal keep their order.
\<close>

fun insertBy :: "('a \<Rightarrow> 'a \<Rightarrow> int) \<Rightarrow> 'a \<Rightarrow> 'a list \<Rightarrow> 'a list" where
  "insertBy cmp x [] = [x]"
| "insertBy cmp x (y # ys) = (if cmp x y \<le> 0 then x # y # ys else y # insertBy cmp x ys)"

fun sortBy :: "('a \<Rightarrow> 'a \<Rightarrow> int) \<Rightarrow> 'a list \<Rightarrow> 'a list" where
  "sortBy cmp [] = []"
| "sortBy cmp (x # xs) = insertBy cmp x (sortBy cmp xs)"

text \<open>The same sort for a comparator that may throw: the first exception ends the sort.\<close>

fun insertByE :: "('a \<Rightarrow> 'a \<Rightarrow> error + int) \<Rightarrow> 'a \<Rightarrow> 'a list \<Rightarrow> error + 'a list" where
  "insertByE cmp x [] = Inr [x]"
| "insertByE cmp x (y # ys) =
     (case cmp x y of
        Inl e \<Rightarrow> Inl e
      | Inr c \<Rightarrow>
          if c \<le> 0 then Inr (x # y # ys)
          else (case insertByE cmp x ys of Inl e \<Rightarrow> Inl e | Inr zs \<Rightarrow> Inr (y # zs)))"

fun sortByE :: "('a \<Rightarrow> 'a \<Rightarrow> error + int) \<Rightarrow> 'a list \<Rightarrow> error + 'a list" where
  "sortByE cmp [] = Inr []"
| "sortByE cmp (x # xs) =
     (case sortByE cmp xs of Inl e \<Rightarrow> Inl e | Inr ys \<Rightarrow> insertByE cmp x ys)"

text \<open>
  The clock: \<open>clk n\<close> is the value of the evaluation of \<^verbatim>\<open>new Date()\<close> that comes after
  \<open>n\<close> others. Reading the clock returns its first value and the clock of the later
  evaluations. No order of the values is assumed.
\<close>

type_synonym clock = "nat \<Rightarrow> int"

definition readClock :: "clock \<Rightarrow> int \<times> clock" where
  "readClock clk = (clk 0, \<lambda>n. clk (Suc n))"

text \<open>
  \<^verbatim>\<open>Array.prototype.filter\<close> with a predicate that reads the clock: the tasks are tested
  from the first to the last, each test with the clock the test before it left.
\<close>

fun filterClock :: "(clock \<Rightarrow> 'a \<Rightarrow> bool \<times> clock) \<Rightarrow> clock \<Rightarrow> 'a list \<Rightarrow> 'a list \<times> clock" where
  "filterClock p clk [] = ([], clk)"
| "filterClock p clk (x # xs) =
     (case p clk x of
        (keep, clk') \<Rightarrow>
          (case filterClock p clk' xs of
             (ys, clk'') \<Rightarrow> (if keep then x # ys else ys, clk'')))"

text \<open>
  A \<^verbatim>\<open>number\<close> as the comparisons of the language see it: a numeric value or the
  not-a-number value, for which \<^verbatim>\<open><\<close> and \<^verbatim>\<open>>\<close> are false on either side.
\<close>

datatype number = Num int | NaN

fun numLess :: "number \<Rightarrow> number \<Rightarrow> bool" where
  "numLess (Num a) (Num b) = (a < b)"
| "numLess (Num a) NaN = False"
| "numLess NaN b = False"

text \<open>\<^verbatim>\<open>xs[0] ?? null\<close>: the first element, or the absent value for an empty array.\<close>

definition firstOrNull :: "'a list \<Rightarrow> 'a option" where
  "firstOrNull xs = (case xs of [] \<Rightarrow> None | x # _ \<Rightarrow> Some x)"

text \<open>\<^verbatim>\<open>a ?? b\<close> for an optional property that cannot be \<^verbatim>\<open>null\<close>.\<close>

definition orElse :: "'a option \<Rightarrow> 'a \<Rightarrow> 'a" where
  "orElse a b = (case a of None \<Rightarrow> b | Some v \<Rightarrow> v)"

text \<open>
  \<^verbatim>\<open>a ?? b\<close> where \<open>a\<close> may be \<^verbatim>\<open>undefined\<close>, \<^verbatim>\<open>null\<close> or a value and \<open>b\<close> is an
  optional property: both \<^verbatim>\<open>undefined\<close> and \<^verbatim>\<open>null\<close> give way to \<open>b\<close>.
\<close>

definition orElseNullable :: "'a nullable option \<Rightarrow> 'a option \<Rightarrow> 'a option" where
  "orElseNullable a b = (case a of None \<Rightarrow> b | Some Null \<Rightarrow> b | Some (Value v) \<Rightarrow> Some v)"

section \<open>state.ts\<close>

definition createInitialState :: TaskState where
  "createInitialState = \<lparr>tasks = []\<rparr>"

section \<open>task-operations.ts\<close>

text \<open>
  The range check \<^verbatim>\<open>priority < 1 || priority > 5\<close> of \<^verbatim>\<open>createTask\<close> and of
  \<^verbatim>\<open>updatePriorities\<close>, and the check
  \<^verbatim>\<open>taskUpdate.priority !== undefined && (taskUpdate.priority < 1 || taskUpdate.priority > 5)\<close>
  of \<^verbatim>\<open>updateTask\<close>, on every value of the type \<^verbatim>\<open>number\<close>. The operations below are
  the operations of the source on priorities that are numeric values, where the checks
  are the comparisons of integers.
\<close>

definition priorityOutOfRange :: "number \<Rightarrow> bool" where
  "priorityOutOfRange priority' = (numLess priority' (Num 1) \<or> numLess (Num 5) priority')"

definition patchPriorityOutOfRange :: "number option \<Rightarrow> bool" where
  "patchPriorityOutOfRange priority' =
     (case priority' of
        None \<Rightarrow> False
      | Some p \<Rightarrow> numLess p (Num 1) \<or> numLess (Num 5) p)"

definition createTask ::
  "string \<Rightarrow> int \<Rightarrow> string \<Rightarrow> string \<Rightarrow> int \<Rightarrow> int option \<Rightarrow> error + Task" where
  "createTask newId now title' description' priority' deadline' =
     (if priority' < 1 \<or> priority' > 5 then Inl (Error ''Priority must be between 1 and 5'')
      else if trim title' = [] then Inl (Error ''Title cannot be empty'')
      else Inr \<lparr>task_id = newId, title = title', description = description',
                priority = priority', status = Pending, createdAt = now,
                deadline = deadline', completedAt = None\<rparr>)"

definition addTask ::
  "string \<Rightarrow> int \<Rightarrow> TaskState \<Rightarrow> string \<Rightarrow> string \<Rightarrow> int \<Rightarrow> int option \<Rightarrow> error + TaskState" where
  "addTask newId now state title' description' priority' deadline' =
     (case createTask newId now title' description' priority' deadline' of
        Inl e \<Rightarrow> Inl e
      | Inr task \<Rightarrow> Inr \<lparr>tasks = tasks state @ [task]\<rparr>)"

definition removeTask :: "TaskState \<Rightarrow> string \<Rightarrow> TaskState" where
  "removeTask state taskId = \<lparr>tasks = filter (\<lambda>task. task_id task \<noteq> taskId) (tasks state)\<rparr>"

definition getTask :: "TaskState \<Rightarrow> string \<Rightarrow> (Task, error) Result" where
  "getTask state taskId =
     (case find (\<lambda>task. task_id task = taskId) (tasks state) of
        Some task \<Rightarrow> Ok task
      | None \<Rightarrow> Err (Error ''Task not found''))"

definition updateTaskStatus :: "int \<Rightarrow> TaskState \<Rightarrow> string \<Rightarrow> TaskStatus \<Rightarrow> TaskState" where
  "updateTaskStatus now state taskId newStatus =
     \<lparr>tasks = map (\<lambda>task.
        if task_id task = taskId
        then task\<lparr>status := newStatus,
                  completedAt := (if newStatus = Completed then Some now else completedAt task)\<rparr>
        else task) (tasks state)\<rparr>"

definition markInProgress :: "int \<Rightarrow> TaskState \<Rightarrow> string \<Rightarrow> TaskState" where
  "markInProgress now state taskId = updateTaskStatus now state taskId InProgress"

definition markCompleted :: "int \<Rightarrow> TaskState \<Rightarrow> string \<Rightarrow> TaskState" where
  "markCompleted now state taskId = updateTaskStatus now state taskId Completed"

definition updateTask :: "TaskState \<Rightarrow> string \<Rightarrow> TaskUpdate \<Rightarrow> (TaskState, error) Result" where
  "updateTask state taskId taskUpdate =
     (let taskExists = list_ex (\<lambda>t. task_id t = taskId) (tasks state) in
      if \<not> taskExists then Err (Error (''Task with id '' @ taskId @ '' not found''))
      else if (case TaskUpdate.priority taskUpdate of
                 None \<Rightarrow> False
               | Some p \<Rightarrow> p < 1 \<or> p > 5)
      then Err (Error ''Priority must be between 1 and 5'')
      else Ok \<lparr>tasks = map (\<lambda>task.
        if task_id task = taskId
        then task\<lparr>title := orElse (TaskUpdate.title taskUpdate) (title task),
                  description := orElse (TaskUpdate.description taskUpdate) (description task),
                  priority := orElse (TaskUpdate.priority taskUpdate) (priority task),
                  deadline := orElseNullable (TaskUpdate.deadline taskUpdate) (deadline task)\<rparr>
        else task) (tasks state)\<rparr>)"

definition getAllTasks :: "TaskState \<Rightarrow> Task list" where
  "getAllTasks state = tasks state"

definition getTasksByStatus :: "TaskState \<Rightarrow> TaskStatus \<Rightarrow> Task list" where
  "getTasksByStatus state status' = filter (\<lambda>task. status task = status') (tasks state)"

definition getPendingTasks :: "TaskState \<Rightarrow> Task list" where
  "getPendingTasks state = getTasksByStatus state Pending"

definition getInProgressTasks :: "TaskState \<Rightarrow> Task list" where
  "getInProgressTasks state = getTasksByStatus state InProgress"

definition getCompletedTasks :: "TaskState \<Rightarrow> Task list" where
  "getCompletedTasks state = getTasksByStatus state Completed"

definition sortByPriority :: "Task list \<Rightarrow> Task list" where
  "sortByPriority ts = sortBy (\<lambda>a b. priority b - priority a) ts"

text \<open>
  \<^verbatim>\<open>task.deadline!.getTime()\<close>: the non-null assertion is erased at run time, and
  calling a method of \<^verbatim>\<open>undefined\<close> throws a \<^verbatim>\<open>TypeError\<close>.
\<close>

definition deadlineTime :: "Task \<Rightarrow> error + int" where
  "deadlineTime task =
     (case deadline task of
        None \<Rightarrow> Inl (TypeError ''Cannot read properties of undefined'')
      | Some d \<Rightarrow> Inr d)"

definition compareDeadline :: "Task \<Rightarrow> Task \<Rightarrow> error + int" where
  "compareDeadline a b =
     (case deadlineTime a of
        Inl e \<Rightarrow> Inl e
      | Inr x \<Rightarrow> (case deadlineTime b of Inl e \<Rightarrow> Inl e | Inr y \<Rightarrow> Inr (x - y)))"

definition sortByDeadline :: "Task list \<Rightarrow> error + Task list" where
  "sortByDeadline ts =
     (let tasksWithoutDeadline = filter (\<lambda>task. deadline task = None) ts;
          tasksWithDeadline = filter (\<lambda>task. deadline task \<noteq> None) ts
      in case sortByE compareDeadline tasksWithDeadline of
           Inl e \<Rightarrow> Inl e
         | Inr sortedWithDeadlines \<Rightarrow> Inr (sortedWithDeadlines @ tasksWithoutDeadline))"

definition sortTasksByPriority :: "TaskState \<Rightarrow> Task list" where
  "sortTasksByPriority state = sortByPriority (tasks state)"

definition sortTasksByDeadline :: "TaskState \<Rightarrow> error + Task list" where
  "sortTasksByDeadline state = sortByDeadline (tasks state)"

definition isOverdue :: "clock \<Rightarrow> Task \<Rightarrow> bool \<times> clock" where
  "isOverdue clk task =
     (case deadline task of
        None \<Rightarrow> (False, clk)
      | Some d \<Rightarrow>
          if status task \<noteq> Completed
          then (case readClock clk of (now, clk') \<Rightarrow> (d < now, clk'))
          else (False, clk))"

definition getOverdueTasks :: "clock \<Rightarrow> TaskState \<Rightarrow> Task list \<times> clock" where
  "getOverdueTasks clk state = filterClock isOverdue clk (tasks state)"

definition getNextTask :: "TaskState \<Rightarrow> Task option" where
  "getNextTask state =
     (let pendingTasks = getPendingTasks state;
          sortedByPriority = sortByPriority pendingTasks
      in firstOrNull sortedByPriority)"

definition getNextTaskByDeadline :: "TaskState \<Rightarrow> error + Task option" where
  "getNextTaskByDeadline state =
     (let pendingTasks = getPendingTasks state
      in case sortByDeadline pendingTasks of
           Inl e \<Rightarrow> Inl e
         | Inr sortedByDeadline \<Rightarrow> Inr (firstOrNull sortedByDeadline))"

definition markMultipleCompleted :: "int \<Rightarrow> TaskState \<Rightarrow> string list \<Rightarrow> TaskState" where
  "markMultipleCompleted now state taskIds =
     (let idSet = set taskIds in
      \<lparr>tasks = map (\<lambda>task.
        if task_id task \<in> idSet \<and> status task \<noteq> Completed
        then task\<lparr>status := Completed, completedAt := Some now\<rparr>
        else task) (tasks state)\<rparr>)"

definition updatePriorities :: "TaskState \<Rightarrow> string list \<Rightarrow> int \<Rightarrow> (TaskState, error) Result" where
  "updatePriorities state taskIds newPriority =
     (if newPriority < 1 \<or> newPriority > 5 then Err (Error ''Priority must be between 1 and 5'')
      else
        let idSet = set taskIds in
        Ok \<lparr>tasks = map (\<lambda>task.
          if task_id task \<in> idSet then task\<lparr>priority := newPriority\<rparr> else task)
          (tasks state)\<rparr>)"

text \<open>
  The reducer of \<^verbatim>\<open>getStatistics\<close>, and the fold over the tasks from the left. The
  accumulator of the model holds the statistics and the clock that the calls of
  \<open>isOverdue\<close> made so far have left.
\<close>

definition statsStep :: "TaskStatistics \<times> clock \<Rightarrow> Task \<Rightarrow> TaskStatistics \<times> clock" where
  "statsStep acc task =
     (case acc of
        (stats, clk) \<Rightarrow>
          let newStats = stats\<lparr>total := total stats + 1\<rparr>;
              newStats =
                (if status task = Pending then newStats\<lparr>pending := pending newStats + 1\<rparr>
                 else if status task = InProgress
                   then newStats\<lparr>inProgress := inProgress newStats + 1\<rparr>
                 else if status task = Completed
                   then newStats\<lparr>completed := completed newStats + 1\<rparr>
                 else newStats)
          in case isOverdue clk task of
               (late, clk') \<Rightarrow>
                 (if late then newStats\<lparr>overdue := overdue newStats + 1\<rparr> else newStats, clk'))"

definition getStatistics :: "clock \<Rightarrow> TaskState \<Rightarrow> TaskStatistics \<times> clock" where
  "getStatistics clk state =
     foldl statsStep
       (\<lparr>total = 0, pending = 0, inProgress = 0, completed = 0, overdue = 0\<rparr>, clk)
       (tasks state)"

section \<open>Reachable states and sample data\<close>

text \<open>
  The states a caller can build from \<open>createInitialState\<close> with the operations that
  return a state. An operation that throws or returns a failure yields no new state.
\<close>

inductive reachable :: "TaskState \<Rightarrow> bool" where
  reach_init: "reachable createInitialState"
| reach_addTask:
    "reachable s \<Longrightarrow> addTask newId now s title' description' priority' deadline' = Inr s'
      \<Longrightarrow> reachable s'"
| reach_removeTask: "reachable s \<Longrightarrow> reachable (removeTask s taskId)"
| reach_updateTaskStatus: "reachable s \<Longrightarrow> reachable (updateTaskStatus now s taskId newStatus)"
| reach_markInProgress: "reachable s \<Longrightarrow> reachable (markInProgress now s taskId)"
| reach_markCompleted: "reachable s \<Longrightarrow> reachable (markCompleted now s taskId)"
| reach_updateTask: "reachable s \<Longrightarrow> updateTask s taskId taskUpdate = Ok s' \<Longrightarrow> reachable s'"
| reach_markMultipleCompleted: "reachable s \<Longrightarrow> reachable (markMultipleCompleted now s taskIds)"
| reach_updatePriorities:
    "reachable s \<Longrightarrow> updatePriorities s taskIds newPriority = Ok s' \<Longrightarrow> reachable s'"

text \<open>The range invariant of the priorities, as a check over a list of tasks.\<close>

definition priorityInRange :: "Task list \<Rightarrow> bool" where
  "priorityInRange ts = list_all (\<lambda>t. 1 \<le> priority t \<and> priority t \<le> 5) ts"

text \<open>Sample tasks and the empty patch, for the concrete instances below.\<close>

definition exampleTask ::
  "string \<Rightarrow> int \<Rightarrow> TaskStatus \<Rightarrow> int option \<Rightarrow> int option \<Rightarrow> Task" where
  "exampleTask i p st d c =
     \<lparr>task_id = i, title = ''Task '' @ i, description = ''Desc'', priority = p, status = st,
      createdAt = 0, deadline = d, completedAt = c\<rparr>"

definition emptyUpdate :: TaskUpdate where
  "emptyUpdate =
     \<lparr>TaskUpdate.title = None, description = None, priority = None, deadline = None\<rparr>"

section \<open>Statistics\<close>

text \<open>
  The fold of \<open>statsStep\<close> from any accumulator: what it adds to each count, and the
  clock it leaves. The calls of \<open>isOverdue\<close> read the clock exactly as the filter of
  \<open>getOverdueTasks\<close> does.
\<close>

lemma foldl_statsStep_total:
  "total (fst (foldl statsStep (acc, clk) ts)) = total acc + length ts"
  by (induction ts arbitrary: acc clk) (simp_all add: statsStep_def Let_def split: prod.splits)

lemma foldl_statsStep_pending:
  "pending (fst (foldl statsStep (acc, clk) ts)) =
     pending acc + length (filter (\<lambda>t. status t = Pending) ts)"
  by (induction ts arbitrary: acc clk) (simp_all add: statsStep_def Let_def split: prod.splits)

lemma foldl_statsStep_inProgress:
  "inProgress (fst (foldl statsStep (acc, clk) ts)) =
     inProgress acc + length (filter (\<lambda>t. status t = InProgress) ts)"
  by (induction ts arbitrary: acc clk) (simp_all add: statsStep_def Let_def split: prod.splits)

lemma foldl_statsStep_completed:
  "completed (fst (foldl statsStep (acc, clk) ts)) =
     completed acc + length (filter (\<lambda>t. status t = Completed) ts)"
  by (induction ts arbitrary: acc clk) (simp_all add: statsStep_def Let_def split: prod.splits)

lemma foldl_statsStep_overdue:
  "overdue (fst (foldl statsStep (acc, clk) ts)) =
     overdue acc + length (fst (filterClock isOverdue clk ts)) \<and>
   snd (foldl statsStep (acc, clk) ts) = snd (filterClock isOverdue clk ts)"
proof (induction ts arbitrary: acc clk)
  case Nil
  show ?case by simp
next
  case (Cons t ts)
  obtain late clk' where o: "isOverdue clk t = (late, clk')" by (cases "isOverdue clk t")
  obtain ys clk'' where f: "filterClock isOverdue clk' ts = (ys, clk'')"
    by (cases "filterClock isOverdue clk' ts")
  obtain acc' where st: "statsStep (acc, clk) t = (acc', clk')"
    and ov: "overdue acc' = overdue acc + (if late then 1 else 0)"
    using o by (simp add: statsStep_def Let_def)
  from Cons.IH [of acc' clk'] f
  have "overdue (fst (foldl statsStep (acc', clk') ts)) = overdue acc' + length ys"
    and "snd (foldl statsStep (acc', clk') ts) = clk''"
    by simp_all
  with st ov o f show ?case by simp
qed

lemma status_partition:
  "length (filter (\<lambda>t. status t = Pending) ts)
     + length (filter (\<lambda>t. status t = InProgress) ts)
     + length (filter (\<lambda>t. status t = Completed) ts) = length ts"
proof (induction ts)
  case Nil
  show ?case by simp
next
  case (Cons t ts)
  then show ?case by (cases "status t") simp_all
qed

text \<open>With a clock that stands still every test reads the same time.\<close>

lemma filterClock_isOverdue_frozen:
  "filterClock isOverdue (\<lambda>n. now) ts =
     (filter (\<lambda>t. case deadline t of None \<Rightarrow> False
                   | Some d \<Rightarrow> status t \<noteq> Completed \<and> d < now) ts, \<lambda>n. now)"
  by (induction ts) (auto simp: isOverdue_def readClock_def split: option.splits)

text \<open>
  Claim C9. For every state and every clock, the total of \<open>getStatistics\<close> is the
  number of tasks, each status count is the number of tasks of that status, and the
  three status counts add up to the total. The overdue count is the number of tasks
  that \<open>getOverdueTasks\<close> returns under the same clock, that is, the number of tasks for
  which the call of \<open>isOverdue\<close> answers true; it is counted apart from the status
  counts, and both calls leave the same clock. With a clock that stands still at \<open>now\<close>
  it is the number of tasks that have a deadline before \<open>now\<close> and are not completed.
\<close>

theorem getStatistics_counts:
  "total (fst (getStatistics clk s)) = length (tasks s) \<and>
   pending (fst (getStatistics clk s)) = length (getPendingTasks s) \<and>
   inProgress (fst (getStatistics clk s)) = length (getInProgressTasks s) \<and>
   completed (fst (getStatistics clk s)) = length (getCompletedTasks s) \<and>
   pending (fst (getStatistics clk s)) + inProgress (fst (getStatistics clk s))
     + completed (fst (getStatistics clk s)) = total (fst (getStatistics clk s)) \<and>
   overdue (fst (getStatistics clk s)) = length (fst (getOverdueTasks clk s)) \<and>
   snd (getStatistics clk s) = snd (getOverdueTasks clk s) \<and>
   overdue (fst (getStatistics (\<lambda>n. now) s)) =
     length (filter (\<lambda>t. case deadline t of None \<Rightarrow> False
                          | Some d \<Rightarrow> status t \<noteq> Completed \<and> d < now) (tasks s))"
  unfolding getStatistics_def getOverdueTasks_def getPendingTasks_def getInProgressTasks_def
    getCompletedTasks_def getTasksByStatus_def
  by (simp add: foldl_statsStep_total foldl_statsStep_pending foldl_statsStep_inProgress
      foldl_statsStep_completed foldl_statsStep_overdue status_partition
      filterClock_isOverdue_frozen)

text \<open>
  Two pending tasks with the deadline 100, and a clock that reads 100 and then 101: the
  first task is not overdue when it is tested and the second is, so that one task is
  counted as overdue, and both are counted as pending.
\<close>

theorem getStatistics_counts_witness:
  "fst (getOverdueTasks (\<lambda>n. 100 + int n)
      \<lparr>tasks = [exampleTask ''a'' 5 Pending (Some 100) None,
                exampleTask ''b'' 2 Pending (Some 100) None]\<rparr>)
     = [exampleTask ''b'' 2 Pending (Some 100) None] \<and>
   total (fst (getStatistics (\<lambda>n. 100 + int n)
      \<lparr>tasks = [exampleTask ''a'' 5 Pending (Some 100) None,
                exampleTask ''b'' 2 Pending (Some 100) None]\<rparr>)) = 2 \<and>
   pending (fst (getStatistics (\<lambda>n. 100 + int n)
      \<lparr>tasks = [exampleTask ''a'' 5 Pending (Some 100) None,
                exampleTask ''b'' 2 Pending (Some 100) None]\<rparr>)) = 2 \<and>
   overdue (fst (getStatistics (\<lambda>n. 100 + int n)
      \<lparr>tasks = [exampleTask ''a'' 5 Pending (Some 100) None,
                exampleTask ''b'' 2 Pending (Some 100) None]\<rparr>)) = 1"
proof -
  let ?s = "\<lparr>tasks = [exampleTask ''a'' 5 Pending (Some 100) None,
                exampleTask ''b'' 2 Pending (Some 100) None]\<rparr>"
  let ?clk = "\<lambda>n. 100 + int n"
  have late: "fst (getOverdueTasks ?clk ?s) = [exampleTask ''b'' 2 Pending (Some 100) None]"
    by (simp add: getOverdueTasks_def isOverdue_def readClock_def exampleTask_def)
  have pend: "length (getPendingTasks ?s) = 2"
    by (simp add: getPendingTasks_def getTasksByStatus_def exampleTask_def)
  note c = getStatistics_counts [of ?clk ?s]
  from c have "total (fst (getStatistics ?clk ?s)) = 2" by simp
  moreover from c pend have "pending (fst (getStatistics ?clk ?s)) = 2" by simp
  moreover from c late have "overdue (fst (getStatistics ?clk ?s)) = 1" by simp
  ultimately show ?thesis using late by simp
qed

text \<open>
  The scenario of the specification: a pending task whose deadline has passed counts as
  pending and as overdue; once it is completed it counts as completed only.
\<close>

lemma getStatistics_example:
  "fst (getStatistics (\<lambda>n. 100) \<lparr>tasks = [exampleTask ''a'' 5 Pending None None,
                               exampleTask ''b'' 2 Pending (Some 50) None]\<rparr>)
     = \<lparr>total = 2, pending = 2, inProgress = 0, completed = 0, overdue = 1\<rparr> \<and>
   fst (getStatistics (\<lambda>n. 100) (markCompleted 100
       \<lparr>tasks = [exampleTask ''a'' 5 Pending None None,
                 exampleTask ''b'' 2 Pending (Some 50) None]\<rparr> ''b''))
     = \<lparr>total = 2, pending = 1, inProgress = 0, completed = 1, overdue = 0\<rparr>"
  by (simp add: getStatistics_def statsStep_def isOverdue_def readClock_def markCompleted_def
      updateTaskStatus_def exampleTask_def Let_def)

section \<open>Status changes\<close>

lemma updateTaskStatus_Completed_stamp:
  assumes "t \<in> set (tasks (updateTaskStatus now s taskId Completed))" and "task_id t = taskId"
  shows "status t = Completed \<and> completedAt t = Some now"
proof -
  from assms(1) have "t \<in> (\<lambda>task. if task_id task = taskId
      then task\<lparr>status := Completed, completedAt := Some now\<rparr> else task) ` set (tasks s)"
    by (simp add: updateTaskStatus_def)
  then obtain x where x: "t = (if task_id x = taskId
      then x\<lparr>status := Completed, completedAt := Some now\<rparr> else x)"
    by (rule imageE)
  show ?thesis
  proof (cases "task_id x = taskId")
    case True
    with x show ?thesis by simp
  next
    case False
    with x assms(2) show ?thesis by simp
  qed
qed

text \<open>
  Claim C1. Completing a task that is already completed: the status stays \<open>Completed\<close>,
  and the completion timestamp becomes the time of the second call. The first call, at
  time 100, stamps 100; the second call, at time 200, replaces the stamp by 200.
\<close>

theorem markCompleted_twice_restamps:
  "markCompleted 100 \<lparr>tasks = [exampleTask ''a'' 3 Pending None None]\<rparr> ''a''
     = \<lparr>tasks = [exampleTask ''a'' 3 Completed None (Some 100)]\<rparr> \<and>
   markCompleted 200 \<lparr>tasks = [exampleTask ''a'' 3 Completed None (Some 100)]\<rparr> ''a''
     = \<lparr>tasks = [exampleTask ''a'' 3 Completed None (Some 200)]\<rparr>"
  by (simp add: markCompleted_def updateTaskStatus_def exampleTask_def)

text \<open>
  Claim C5. \<open>markMultipleCompleted\<close> keeps the number and order of the tasks; a task whose
  id is among the given ids and whose status is not \<open>Completed\<close> becomes \<open>Completed\<close> with
  the one timestamp \<open>now\<close> of the call and is otherwise as before; every other task, an
  already completed one among the ids included, is unchanged.
\<close>

theorem markMultipleCompleted_pointwise:
  "length (tasks (markMultipleCompleted now s ids)) = length (tasks s) \<and>
   (\<forall>i<length (tasks s).
      tasks (markMultipleCompleted now s ids) ! i =
        (if task_id (tasks s ! i) \<in> set ids \<and> status (tasks s ! i) \<noteq> Completed
         then (tasks s ! i)\<lparr>status := Completed, completedAt := Some now\<rparr>
         else tasks s ! i))"
  by (simp add: markMultipleCompleted_def Let_def)

theorem markMultipleCompleted_pointwise_witness:
  "length (tasks (markMultipleCompleted 100
      \<lparr>tasks = [exampleTask ''a'' 5 Pending None None,
                exampleTask ''b'' 3 Completed None (Some 7),
                exampleTask ''c'' 4 InProgress None None]\<rparr> [''a'', ''b''])) = 3 \<and>
   tasks (markMultipleCompleted 100
      \<lparr>tasks = [exampleTask ''a'' 5 Pending None None,
                exampleTask ''b'' 3 Completed None (Some 7),
                exampleTask ''c'' 4 InProgress None None]\<rparr> [''a'', ''b'']) ! 0
     = exampleTask ''a'' 5 Completed None (Some 100) \<and>
   tasks (markMultipleCompleted 100
      \<lparr>tasks = [exampleTask ''a'' 5 Pending None None,
                exampleTask ''b'' 3 Completed None (Some 7),
                exampleTask ''c'' 4 InProgress None None]\<rparr> [''a'', ''b'']) ! 1
     = exampleTask ''b'' 3 Completed None (Some 7) \<and>
   tasks (markMultipleCompleted 100
      \<lparr>tasks = [exampleTask ''a'' 5 Pending None None,
                exampleTask ''b'' 3 Completed None (Some 7),
                exampleTask ''c'' 4 InProgress None None]\<rparr> [''a'', ''b'']) ! 2
     = exampleTask ''c'' 4 InProgress None None"
proof -
  let ?s = "\<lparr>tasks = [exampleTask ''a'' 5 Pending None None,
                exampleTask ''b'' 3 Completed None (Some 7),
                exampleTask ''c'' 4 InProgress None None]\<rparr>"
  note m = markMultipleCompleted_pointwise [of 100 ?s "[''a'', ''b'']"]
  note len = m [THEN conjunct1]
  note at = m [THEN conjunct2, rule_format]
  have 0: "tasks (markMultipleCompleted 100 ?s [''a'', ''b'']) ! 0
             = exampleTask ''a'' 5 Completed None (Some 100)"
    using at [of 0] by (simp add: exampleTask_def)
  have 1: "tasks (markMultipleCompleted 100 ?s [''a'', ''b'']) ! 1
             = exampleTask ''b'' 3 Completed None (Some 7)"
    using at [of 1] by (simp add: exampleTask_def)
  have 2: "tasks (markMultipleCompleted 100 ?s [''a'', ''b'']) ! 2
             = exampleTask ''c'' 4 InProgress None None"
    using at [of 2] by (simp add: exampleTask_def)
  from len have "length (tasks (markMultipleCompleted 100 ?s [''a'', ''b''])) = 3" by simp
  with 0 1 2 show ?thesis by simp
qed

section \<open>Updating a task\<close>

text \<open>
  What a successful \<open>updateTask\<close> does: a property of the patch that holds a value
  replaces the property of every task with the given id; an absent property, and a
  deadline that is \<^verbatim>\<open>null\<close>, leave the task's property as it was; the other properties
  of the task and the tasks with other ids are unchanged.
\<close>

lemma updateTask_success:
  assumes "\<exists>t\<in>set (tasks s). task_id t = taskId"
    and "\<forall>p. TaskUpdate.priority u = Some p \<longrightarrow> 1 \<le> p \<and> p \<le> 5"
  shows "updateTask s taskId u =
     Ok \<lparr>tasks = map (\<lambda>task.
        if task_id task = taskId
        then task\<lparr>title := (case TaskUpdate.title u of None \<Rightarrow> title task | Some x \<Rightarrow> x),
                  description :=
                    (case TaskUpdate.description u of None \<Rightarrow> description task | Some x \<Rightarrow> x),
                  priority := (case TaskUpdate.priority u of None \<Rightarrow> priority task | Some x \<Rightarrow> x),
                  deadline :=
                    (case TaskUpdate.deadline u of
                       None \<Rightarrow> deadline task
                     | Some Null \<Rightarrow> deadline task
                     | Some (Value d) \<Rightarrow> Some d)\<rparr>
        else task) (tasks s)\<rparr>"
proof -
  from assms(1) have "list_ex (\<lambda>t. task_id t = taskId) (tasks s)"
    by (simp add: list_ex_iff)
  moreover from assms(2) have
    "\<not> (case TaskUpdate.priority u of None \<Rightarrow> False | Some p \<Rightarrow> p < 1 \<or> p > 5)"
    by (cases "TaskUpdate.priority u") auto
  ultimately show ?thesis
    by (simp add: updateTask_def orElse_def orElseNullable_def)
qed

text \<open>
  Claim C2. A patch whose deadline is \<^verbatim>\<open>null\<close> is a patch that supplies the deadline, yet
  the task keeps its old deadline: with the deadline 1000 before the call, the call
  succeeds and the deadline is still 1000.
\<close>

theorem updateTask_null_deadline_kept:
  "updateTask \<lparr>tasks = [exampleTask ''a'' 3 Pending (Some 1000) None]\<rparr> ''a''
      (emptyUpdate\<lparr>TaskUpdate.deadline := Some Null\<rparr>)
     = Ok \<lparr>tasks = [exampleTask ''a'' 3 Pending (Some 1000) None]\<rparr>"
  by (simp add: updateTask_def exampleTask_def emptyUpdate_def orElse_def orElseNullable_def)

text \<open>
  For a patch whose priority, when present, is a numeric value: \<open>updateTask\<close> returns a
  failure exactly when no task has the given id, or the patch holds a priority outside
  1..5, and a success exactly otherwise. The failure for a missing id carries the message
  that names the id as not found (it takes precedence); the failure for the priority
  carries the message about the range. A failure is an \<open>Err\<close> value that holds only the
  error: it carries no state, and the state passed in is a value that the call cannot
  change.
\<close>

theorem updateTask_failure:
  "((\<exists>e. updateTask s taskId u = Err e) \<longleftrightarrow>
      (\<not> (\<exists>t\<in>set (tasks s). task_id t = taskId) \<or>
       (\<exists>p. TaskUpdate.priority u = Some p \<and> (p < 1 \<or> 5 < p)))) \<and>
   ((\<exists>s'. updateTask s taskId u = Ok s') \<longleftrightarrow>
      ((\<exists>t\<in>set (tasks s). task_id t = taskId) \<and>
       \<not> (\<exists>p. TaskUpdate.priority u = Some p \<and> (p < 1 \<or> 5 < p)))) \<and>
   (\<not> (\<exists>t\<in>set (tasks s). task_id t = taskId) \<longrightarrow>
      updateTask s taskId u = Err (Error (''Task with id '' @ taskId @ '' not found''))) \<and>
   ((\<exists>t\<in>set (tasks s). task_id t = taskId) \<and>
    (\<exists>p. TaskUpdate.priority u = Some p \<and> (p < 1 \<or> 5 < p)) \<longrightarrow>
      updateTask s taskId u = Err (Error ''Priority must be between 1 and 5''))"
  by (auto simp: updateTask_def Let_def list_ex_iff split: option.splits)

theorem updateTask_failure_witness:
  "updateTask \<lparr>tasks = [exampleTask ''a'' 3 Pending None None]\<rparr> ''non-existent''
      (emptyUpdate\<lparr>TaskUpdate.title := Some ''New''\<rparr>)
     = Err (Error ''Task with id non-existent not found'') \<and>
   updateTask \<lparr>tasks = [exampleTask ''a'' 3 Pending None None]\<rparr> ''a''
      (emptyUpdate\<lparr>TaskUpdate.priority := Some 10\<rparr>)
     = Err (Error ''Priority must be between 1 and 5'') \<and>
   (\<exists>s'. updateTask \<lparr>tasks = [exampleTask ''a'' 3 Pending None None]\<rparr> ''a''
      (emptyUpdate\<lparr>TaskUpdate.priority := Some 5\<rparr>) = Ok s')"
proof -
  let ?s = "\<lparr>tasks = [exampleTask ''a'' 3 Pending None None]\<rparr>"
  have 1: "updateTask ?s ''non-existent'' (emptyUpdate\<lparr>TaskUpdate.title := Some ''New''\<rparr>)
             = Err (Error ''Task with id non-existent not found'')"
    using updateTask_failure [of ?s "''non-existent''" "emptyUpdate\<lparr>TaskUpdate.title := Some ''New''\<rparr>"]
    by (simp add: exampleTask_def)
  have 2: "updateTask ?s ''a'' (emptyUpdate\<lparr>TaskUpdate.priority := Some 10\<rparr>)
             = Err (Error ''Priority must be between 1 and 5'')"
    using updateTask_failure [of ?s "''a''" "emptyUpdate\<lparr>TaskUpdate.priority := Some 10\<rparr>"]
    by (simp add: exampleTask_def)
  have 3: "\<exists>s'. updateTask ?s ''a'' (emptyUpdate\<lparr>TaskUpdate.priority := Some 5\<rparr>) = Ok s'"
    using updateTask_failure [of ?s "''a''" "emptyUpdate\<lparr>TaskUpdate.priority := Some 5\<rparr>"]
    by (simp add: exampleTask_def)
  from 1 2 3 show ?thesis by simp
qed

lemma patchPriorityOutOfRange_Num:
  "patchPriorityOutOfRange (map_option Num p) = (case p of None \<Rightarrow> False | Some q \<Rightarrow> q < 1 \<or> q > 5)"
  by (cases p) (simp_all add: patchPriorityOutOfRange_def)

text \<open>The check of the model's \<open>updateTask\<close> is this check on numeric values.\<close>

lemma updateTask_fails_iff_check:
  "(\<exists>e. updateTask s taskId u = Err e) =
     (\<not> list_ex (\<lambda>t. task_id t = taskId) (tasks s) \<or>
      patchPriorityOutOfRange (map_option Num (TaskUpdate.priority u)))"
  by (auto simp: updateTask_def Let_def patchPriorityOutOfRange_Num split: option.splits)

text \<open>
  Claim C4. The check of \<open>updateTask\<close> does not reject a patch whose priority is the
  not-a-number value: the priority is present and both comparisons are false, so the
  call goes on to the update and returns a success, although the value does not lie in
  1..5. A patch without a priority passes as well, and on a numeric value the check is
  the comparison with 1 and 5.
\<close>

theorem updateTask_check_passes_NaN:
  "patchPriorityOutOfRange (Some NaN) = False \<and>
   patchPriorityOutOfRange None = False \<and>
   patchPriorityOutOfRange (Some (Num p)) = (p < 1 \<or> 5 < p)"
  by (auto simp: patchPriorityOutOfRange_def)

section \<open>Invariants of the reachable states\<close>

lemma priorityInRange_map:
  assumes "priorityInRange ts"
    and "\<And>t. 1 \<le> priority t \<and> priority t \<le> 5 \<Longrightarrow> 1 \<le> priority (f t) \<and> priority (f t) \<le> 5"
  shows "priorityInRange (map f ts)"
  using assms(1) unfolding priorityInRange_def
  by (induction ts) (simp_all add: assms(2))

lemma priorityInRange_map_same:
  "priorityInRange ts \<Longrightarrow> (\<And>t. priority (f t) = priority t) \<Longrightarrow> priorityInRange (map f ts)"
  by (rule priorityInRange_map) simp_all

lemma priorityInRange_updateTaskStatus:
  "priorityInRange (tasks s) \<Longrightarrow> priorityInRange (tasks (updateTaskStatus now s taskId st))"
  unfolding updateTaskStatus_def by (simp add: priorityInRange_map_same)

lemma priorityInRange_markMultipleCompleted:
  "priorityInRange (tasks s) \<Longrightarrow> priorityInRange (tasks (markMultipleCompleted now s ids))"
  unfolding markMultipleCompleted_def Let_def by (simp add: priorityInRange_map_same)

lemma priorityInRange_removeTask:
  "priorityInRange (tasks s) \<Longrightarrow> priorityInRange (tasks (removeTask s taskId))"
  by (simp add: removeTask_def priorityInRange_def list_all_iff)

lemma priorityInRange_addTask:
  assumes "priorityInRange (tasks s)" and "addTask newId now s ttl dsc p d = Inr s'"
  shows "priorityInRange (tasks s')"
proof -
  from assms(2) have ok: "1 \<le> p" "p \<le> 5"
    by (auto simp: addTask_def createTask_def split: if_splits)
  with assms(2) have "tasks s' = tasks s @
      [\<lparr>task_id = newId, title = ttl, description = dsc, priority = p, status = Pending,
        createdAt = now, deadline = d, completedAt = None\<rparr>]"
    by (auto simp: addTask_def createTask_def split: if_splits)
  with assms(1) ok show ?thesis by (simp add: priorityInRange_def)
qed

lemma priorityInRange_updateTask:
  assumes "priorityInRange (tasks s)" and "updateTask s taskId u = Ok s'"
  shows "priorityInRange (tasks s')"
proof -
  from assms(2) have ex: "list_ex (\<lambda>t. task_id t = taskId) (tasks s)"
    and pr: "\<not> (case TaskUpdate.priority u of None \<Rightarrow> False | Some p \<Rightarrow> p < 1 \<or> p > 5)"
    by (auto simp: updateTask_def Let_def split: if_splits)
  let ?f = "\<lambda>task. if task_id task = taskId
        then task\<lparr>title := orElse (TaskUpdate.title u) (title task),
                  description := orElse (TaskUpdate.description u) (description task),
                  priority := orElse (TaskUpdate.priority u) (priority task),
                  deadline := orElseNullable (TaskUpdate.deadline u) (deadline task)\<rparr>
        else task"
  from assms(2) ex pr have s': "tasks s' = map ?f (tasks s)"
    by (auto simp: updateTask_def Let_def)
  have "1 \<le> priority (?f t) \<and> priority (?f t) \<le> 5" if "1 \<le> priority t \<and> priority t \<le> 5" for t
    using that pr by (cases "TaskUpdate.priority u") (auto simp: orElse_def)
  with assms(1) have "priorityInRange (map ?f (tasks s))"
    by (rule priorityInRange_map)
  then show ?thesis by (simp only: s')
qed

lemma priorityInRange_updatePriorities:
  assumes "priorityInRange (tasks s)" and "updatePriorities s ids p = Ok s'"
  shows "priorityInRange (tasks s')"
proof -
  from assms(2) have ok: "1 \<le> p" "p \<le> 5"
    by (auto simp: updatePriorities_def split: if_splits)
  let ?f = "\<lambda>task. if task_id task \<in> set ids then task\<lparr>priority := p\<rparr> else task"
  from assms(2) ok have s': "tasks s' = map ?f (tasks s)"
    by (auto simp: updatePriorities_def Let_def)
  have "1 \<le> priority (?f t) \<and> priority (?f t) \<le> 5" if "1 \<le> priority t \<and> priority t \<le> 5" for t
    using that ok by simp
  with assms(1) have "priorityInRange (map ?f (tasks s))"
    by (rule priorityInRange_map)
  then show ?thesis by (simp only: s')
qed

text \<open>
  The priority half of the invariant, for priorities that are numeric values: it holds
  in every state reachable in the model. The not-a-number value passes the range checks
  of the source (\<open>priorityOutOfRange\<close>, \<open>patchPriorityOutOfRange\<close>) and is not a priority
  of the model.
\<close>

lemma reachable_priorityInRange: "reachable s \<Longrightarrow> priorityInRange (tasks s)"
proof (induction rule: reachable.induct)
  case reach_init
  show ?case by (simp add: createInitialState_def priorityInRange_def)
next
  case (reach_addTask s newId now title' description' priority' deadline' s')
  then show ?case by (blast intro: priorityInRange_addTask)
next
  case (reach_removeTask s taskId)
  then show ?case by (simp add: priorityInRange_removeTask)
next
  case (reach_updateTaskStatus s now taskId newStatus)
  then show ?case by (simp add: priorityInRange_updateTaskStatus)
next
  case (reach_markInProgress s now taskId)
  then show ?case by (simp add: markInProgress_def priorityInRange_updateTaskStatus)
next
  case (reach_markCompleted s now taskId)
  then show ?case by (simp add: markCompleted_def priorityInRange_updateTaskStatus)
next
  case (reach_updateTask s taskId taskUpdate s')
  then show ?case by (blast intro: priorityInRange_updateTask)
next
  case (reach_markMultipleCompleted s now taskIds)
  then show ?case by (simp add: priorityInRange_markMultipleCompleted)
next
  case (reach_updatePriorities s taskIds newPriority s')
  then show ?case by (blast intro: priorityInRange_updatePriorities)
qed

text \<open>
  Claim C3. The title half of the invariant fails: \<open>updateTask\<close> checks the priority of a
  patch and not its title, so that a state with a task whose title is blank is reachable,
  by adding a task and then patching its title with three spaces.
\<close>

theorem blank_title_reachable:
  "reachable \<lparr>tasks = [(exampleTask ''a'' 3 Pending None None)\<lparr>title := ''   ''\<rparr>]\<rparr> \<and>
   trim (title ((exampleTask ''a'' 3 Pending None None)\<lparr>title := ''   ''\<rparr>)) = []"
proof -
  let ?t = "exampleTask ''a'' 3 Pending None None"
  have "addTask ''a'' 0 createInitialState ''Task a'' ''Desc'' 3 None = Inr \<lparr>tasks = [?t]\<rparr>"
    by (simp add: addTask_def createTask_def createInitialState_def exampleTask_def trim_def
        isWhiteSpace_def)
  with reach_init have 1: "reachable \<lparr>tasks = [?t]\<rparr>"
    by (rule reach_addTask)
  have "updateTask \<lparr>tasks = [?t]\<rparr> ''a'' (emptyUpdate\<lparr>TaskUpdate.title := Some ''   ''\<rparr>)
          = Ok \<lparr>tasks = [?t\<lparr>title := ''   ''\<rparr>]\<rparr>"
    by (simp add: updateTask_def exampleTask_def emptyUpdate_def orElse_def orElseNullable_def)
  with 1 have "reachable \<lparr>tasks = [?t\<lparr>title := ''   ''\<rparr>]\<rparr>"
    by (rule reach_updateTask)
  moreover have "trim (title (?t\<lparr>title := ''   ''\<rparr>)) = []"
    by (simp add: trim_def isWhiteSpace_def)
  ultimately show ?thesis by simp
qed

section \<open>Adding a task\<close>

text \<open>
  For a priority that is a numeric value: \<open>addTask\<close> throws (the result is an \<open>Inl\<close>,
  not a \<open>Result\<close> value) exactly when the priority is below 1 or above 5 or the title
  is empty after trimming. For every other input it returns the state whose tasks are
  the old tasks, in their order, followed by one new task; the new task is pending, has
  no completion timestamp, and has the given priority and deadline (and the generated id
  and the time of the call as its creation timestamp).
\<close>

theorem addTask_spec:
  "((\<exists>e. addTask newId now s ttl dsc p d = Inl e) \<longleftrightarrow> (p < 1 \<or> 5 < p \<or> trim ttl = [])) \<and>
   (1 \<le> p \<and> p \<le> 5 \<and> trim ttl \<noteq> [] \<longrightarrow>
      (\<exists>t. addTask newId now s ttl dsc p d = Inr \<lparr>tasks = tasks s @ [t]\<rparr> \<and>
           status t = Pending \<and> completedAt t = None \<and> priority t = p \<and> deadline t = d \<and>
           task_id t = newId \<and> createdAt t = now))"
  by (auto simp: addTask_def createTask_def)

theorem addTask_spec_witness:
  "(\<exists>e. addTask ''b'' 7 \<lparr>tasks = [exampleTask ''a'' 3 Pending None None]\<rparr>
           ''Task'' ''Desc'' 0 None = Inl e) \<and>
   (\<exists>e. addTask ''b'' 7 \<lparr>tasks = [exampleTask ''a'' 3 Pending None None]\<rparr>
           ''   '' ''Desc'' 3 None = Inl e) \<and>
   (\<exists>t. addTask ''b'' 7 \<lparr>tasks = [exampleTask ''a'' 3 Pending None None]\<rparr>
           ''Test title'' ''Test description'' 3 (Some 50)
         = Inr \<lparr>tasks = [exampleTask ''a'' 3 Pending None None, t]\<rparr> \<and>
        status t = Pending \<and> completedAt t = None \<and> priority t = 3 \<and> deadline t = Some 50)"
proof -
  let ?s = "\<lparr>tasks = [exampleTask ''a'' 3 Pending None None]\<rparr>"
  have 1: "\<exists>e. addTask ''b'' 7 ?s ''Task'' ''Desc'' 0 None = Inl e"
    using addTask_spec [of "''b''" 7 ?s "''Task''" "''Desc''" 0 None] by simp
  have "trim ''   '' = []"
    by (simp add: trim_def isWhiteSpace_def)
  then have 2: "\<exists>e. addTask ''b'' 7 ?s ''   '' ''Desc'' 3 None = Inl e"
    using addTask_spec [of "''b''" 7 ?s "''   ''" "''Desc''" 3 None] by simp
  have "trim ''Test title'' \<noteq> []"
    by (simp add: trim_def isWhiteSpace_def)
  then have 3: "\<exists>t. addTask ''b'' 7 ?s ''Test title'' ''Test description'' 3 (Some 50)
         = Inr \<lparr>tasks = [exampleTask ''a'' 3 Pending None None, t]\<rparr> \<and>
        status t = Pending \<and> completedAt t = None \<and> priority t = 3 \<and> deadline t = Some 50"
    using addTask_spec [of "''b''" 7 ?s "''Test title''" "''Test description''" 3 "Some 50"]
    by auto
  from 1 2 3 show ?thesis by blast
qed

lemma priorityOutOfRange_Num: "priorityOutOfRange (Num p) = (p < 1 \<or> p > 5)"
  by (simp add: priorityOutOfRange_def)

text \<open>The check of the model's \<open>createTask\<close> is this check on numeric values.\<close>

lemma createTask_throws_iff_check:
  "(\<exists>e. createTask newId now ttl dsc p d = Inl e) =
     (priorityOutOfRange (Num p) \<or> trim ttl = [])"
  by (auto simp: createTask_def priorityOutOfRange_Num)

text \<open>
  Claim C6. The check of \<open>createTask\<close> does not reject the not-a-number value: both
  comparisons are false, so that no error is thrown and the task is created, although
  the value does not lie in 1..5. On a numeric value the check is the comparison with
  1 and 5.
\<close>

theorem createTask_check_passes_NaN:
  "priorityOutOfRange NaN = False \<and> priorityOutOfRange (Num p) = (p < 1 \<or> 5 < p)"
  by (auto simp: priorityOutOfRange_def)

text \<open>
  Claim C10. When \<open>addTask\<close> returns a state, the last task of that state is the new one,
  the tasks before it are the old ones, and its title and description are the strings
  passed in, character for character: the trimmed title is used for the check only.
\<close>

theorem addTask_stores_text_verbatim:
  assumes "addTask newId now s ttl dsc p d = Inr s'"
  shows "tasks s' \<noteq> [] \<and> butlast (tasks s') = tasks s \<and>
         title (last (tasks s')) = ttl \<and> description (last (tasks s')) = dsc"
  using assms by (auto simp: addTask_def createTask_def split: if_splits)

theorem addTask_stores_text_verbatim_witness:
  "addTask ''b'' 7 \<lparr>tasks = [exampleTask ''a'' 3 Pending None None]\<rparr>
      ''  Padded title '' '' padded description  '' 3 None
     = Inr \<lparr>tasks = [exampleTask ''a'' 3 Pending None None,
                     \<lparr>task_id = ''b'', title = ''  Padded title '',
                      description = '' padded description  '', priority = 3, status = Pending,
                      createdAt = 7, deadline = None, completedAt = None\<rparr>]\<rparr> \<and>
   title (last (tasks \<lparr>tasks = [exampleTask ''a'' 3 Pending None None,
                     \<lparr>task_id = ''b'', title = ''  Padded title '',
                      description = '' padded description  '', priority = 3, status = Pending,
                      createdAt = 7, deadline = None, completedAt = None\<rparr>]\<rparr>))
     = ''  Padded title '' \<and>
   description (last (tasks \<lparr>tasks = [exampleTask ''a'' 3 Pending None None,
                     \<lparr>task_id = ''b'', title = ''  Padded title '',
                      description = '' padded description  '', priority = 3, status = Pending,
                      createdAt = 7, deadline = None, completedAt = None\<rparr>]\<rparr>))
     = '' padded description  ''"
proof -
  let ?s = "\<lparr>tasks = [exampleTask ''a'' 3 Pending None None]\<rparr>"
  let ?s' = "\<lparr>tasks = [exampleTask ''a'' 3 Pending None None,
                     \<lparr>task_id = ''b'', title = ''  Padded title '',
                      description = '' padded description  '', priority = 3, status = Pending,
                      createdAt = 7, deadline = None, completedAt = None\<rparr>]\<rparr>"
  have run: "addTask ''b'' 7 ?s ''  Padded title '' '' padded description  '' 3 None = Inr ?s'"
    by (simp add: addTask_def createTask_def trim_def isWhiteSpace_def)
  from addTask_stores_text_verbatim [OF run] run show ?thesis by blast
qed

section \<open>The sort does not depend on the engine's algorithm\<close>

lemma insertBy_priority:
  "insertBy (\<lambda>a b. priority b - priority a) x ys = insort_key (\<lambda>t. - priority t) x ys"
  by (induction ys) simp_all

lemma sortByPriority_sort_key: "sortByPriority ts = sort_key (\<lambda>t. - priority t) ts"
  unfolding sortByPriority_def
  by (induction ts) (simp_all add: insertBy_priority)

text \<open>
  Any list that holds the same tasks, is in descending order of priority and keeps the
  input order among tasks of equal priority is the result of \<open>sortByPriority\<close>: every
  stable sort returns what the insertion sort of the model returns.
\<close>

lemma sortByPriority_unique:
  assumes "mset ys = mset ts"
    and "sorted (map (\<lambda>t. - priority t) ys)"
    and "\<And>k. k \<in> set ys \<Longrightarrow>
           filter (\<lambda>x. priority k = priority x) ys = filter (\<lambda>x. priority k = priority x) ts"
  shows "sortByPriority ts = ys"
proof -
  have "sort_key (\<lambda>t. - priority t) ts = ys"
    using assms by (intro properties_for_sort_key) simp_all
  then show ?thesis by (simp add: sortByPriority_sort_key)
qed

lemma sorted_uminus_rev: "sorted (map uminus xs) \<Longrightarrow> sorted (rev xs)" for xs :: "int list"
  by (induction xs) (auto simp: sorted_append)

lemma sortByPriority_descending:
  "sorted (rev (map priority (sortByPriority ts))) \<and> mset (sortByPriority ts) = mset ts"
proof -
  have "sorted (map (\<lambda>t. - priority t) (sortByPriority ts))"
    by (simp add: sortByPriority_sort_key)
  then have "sorted (map uminus (map priority (sortByPriority ts)))"
    by (simp add: comp_def)
  then have "sorted (rev (map priority (sortByPriority ts)))"
    by (rule sorted_uminus_rev)
  then show ?thesis by (simp add: sortByPriority_sort_key)
qed

section \<open>Sorting and the next task\<close>

lemma firstOrNull_insertBy:
  "firstOrNull (insertBy cmp x ys) =
     (case ys of [] \<Rightarrow> Some x | h # _ \<Rightarrow> if cmp x h \<le> 0 then Some x else Some h)"
  by (cases ys) (simp_all add: firstOrNull_def)

lemma firstOrNull_None_iff: "firstOrNull xs = None \<longleftrightarrow> xs = []"
  by (cases xs) (simp_all add: firstOrNull_def)

lemma sortBy_Nil_iff: "sortBy cmp xs = [] \<longleftrightarrow> xs = []"
proof (cases xs)
  case Nil
  then show ?thesis by simp
next
  case (Cons x xs')
  have "insertBy cmp x zs \<noteq> []" for zs by (cases zs) simp_all
  with Cons show ?thesis by simp
qed

text \<open>How \<open>getNextTask\<close> goes through the tasks, seen from the front of the list.\<close>

lemma getNextTask_Nil: "getNextTask \<lparr>tasks = []\<rparr> = None"
  by (simp add: getNextTask_def getPendingTasks_def getTasksByStatus_def sortByPriority_def
      firstOrNull_def)

lemma getNextTask_skip:
  "status x \<noteq> Pending \<Longrightarrow> getNextTask \<lparr>tasks = x # xs\<rparr> = getNextTask \<lparr>tasks = xs\<rparr>"
  by (simp add: getNextTask_def getPendingTasks_def getTasksByStatus_def)

lemma getNextTask_Cons:
  "status x = Pending \<Longrightarrow>
   getNextTask \<lparr>tasks = x # xs\<rparr> =
     (case getNextTask \<lparr>tasks = xs\<rparr> of
        None \<Rightarrow> Some x
      | Some h \<Rightarrow> if priority h \<le> priority x then Some x else Some h)"
  by (cases "sortBy (\<lambda>a b. priority b - priority a) (filter (\<lambda>task. status task = Pending) xs)")
     (simp_all add: getNextTask_def getPendingTasks_def getTasksByStatus_def sortByPriority_def
        firstOrNull_insertBy firstOrNull_def)

lemma getNextTask_None_iff:
  "getNextTask \<lparr>tasks = ts\<rparr> = None \<longleftrightarrow> filter (\<lambda>task. status task = Pending) ts = []"
  by (simp add: getNextTask_def getPendingTasks_def getTasksByStatus_def sortByPriority_def
      firstOrNull_None_iff sortBy_Nil_iff)

lemma getNextTask_Some:
  "getNextTask \<lparr>tasks = ts\<rparr> = Some t \<Longrightarrow>
   \<exists>pre post. ts = pre @ t # post \<and> status t = Pending \<and>
     (\<forall>u\<in>set pre. status u = Pending \<longrightarrow> priority u < priority t) \<and>
     (\<forall>u\<in>set post. status u = Pending \<longrightarrow> priority u \<le> priority t)"
proof (induction ts arbitrary: t)
  case Nil
  then show ?case by (simp add: getNextTask_Nil)
next
  case (Cons x xs)
  show ?case
  proof (cases "status x = Pending")
    case False
    with Cons.prems have "getNextTask \<lparr>tasks = xs\<rparr> = Some t" by (simp add: getNextTask_skip)
    from Cons.IH[OF this] obtain pre post where
      d: "xs = pre @ t # post" "status t = Pending"
         "\<forall>u\<in>set pre. status u = Pending \<longrightarrow> priority u < priority t"
         "\<forall>u\<in>set post. status u = Pending \<longrightarrow> priority u \<le> priority t"
      by blast
    have "x # xs = (x # pre) @ t # post" using d(1) by simp
    moreover have "\<forall>u\<in>set (x # pre). status u = Pending \<longrightarrow> priority u < priority t"
      using d(3) False by simp
    ultimately show ?thesis using d(2,4) by blast
  next
    case True
    note eq = getNextTask_Cons[OF True, of xs]
    show ?thesis
    proof (cases "getNextTask \<lparr>tasks = xs\<rparr>")
      case None
      then have "filter (\<lambda>task. status task = Pending) xs = []"
        by (simp add: getNextTask_None_iff)
      then have none: "\<forall>u\<in>set xs. status u \<noteq> Pending" by (simp add: filter_empty_conv)
      from eq None Cons.prems have "t = x" by simp
      then have "x # xs = [] @ t # xs" by simp
      moreover have "\<forall>u\<in>set xs. status u = Pending \<longrightarrow> priority u \<le> priority t"
        using none by blast
      ultimately show ?thesis using True \<open>t = x\<close> by fastforce
    next
      case (Some h)
      from Cons.IH[OF Some] obtain pre post where
        d: "xs = pre @ h # post" "status h = Pending"
           "\<forall>u\<in>set pre. status u = Pending \<longrightarrow> priority u < priority h"
           "\<forall>u\<in>set post. status u = Pending \<longrightarrow> priority u \<le> priority h"
        by blast
      show ?thesis
      proof (cases "priority h \<le> priority x")
        case le: True
        with eq Some Cons.prems have "t = x" by simp
        have "\<forall>u\<in>set xs. status u = Pending \<longrightarrow> priority u \<le> priority x"
          using d le by fastforce
        moreover have "x # xs = [] @ x # xs" by simp
        ultimately show ?thesis using True \<open>t = x\<close> by fastforce
      next
        case gt: False
        with eq Some Cons.prems have "t = h" by simp
        have "x # xs = (x # pre) @ h # post" using d(1) by simp
        moreover have "\<forall>u\<in>set (x # pre). status u = Pending \<longrightarrow> priority u < priority h"
          using d(3) gt by simp
        ultimately show ?thesis using d(2,4) \<open>t = h\<close> by blast
      qed
    qed
  qed
qed

text \<open>
  Claim C7. Without a pending task \<open>getNextTask\<close> returns the absent value. With one, it
  returns a pending task \<open>t\<close> at a position of the state's list such that every pending
  task after it has a priority no higher, and every pending task before it has a
  strictly lower priority: the earliest of the pending tasks of highest priority.
\<close>

theorem getNextTask_highest_priority_pending:
  "(getPendingTasks s = [] \<longrightarrow> getNextTask s = None) \<and>
   (getPendingTasks s \<noteq> [] \<longrightarrow>
      (\<exists>pre t post. tasks s = pre @ t # post \<and> getNextTask s = Some t \<and> status t = Pending \<and>
         (\<forall>u\<in>set pre. status u = Pending \<longrightarrow> priority u < priority t) \<and>
         (\<forall>u\<in>set post. status u = Pending \<longrightarrow> priority u \<le> priority t)))"
proof -
  have s: "\<lparr>tasks = tasks s\<rparr> = s" by (cases s) simp
  have p: "getPendingTasks s = filter (\<lambda>task. status task = Pending) (tasks s)"
    by (simp add: getPendingTasks_def getTasksByStatus_def)
  show ?thesis
  proof (intro conjI impI)
    assume "getPendingTasks s = []"
    with p have "getNextTask \<lparr>tasks = tasks s\<rparr> = None" by (simp add: getNextTask_None_iff)
    then show "getNextTask s = None" by (simp only: s)
  next
    assume "getPendingTasks s \<noteq> []"
    with p have "getNextTask \<lparr>tasks = tasks s\<rparr> \<noteq> None" by (simp add: getNextTask_None_iff)
    then obtain t where t: "getNextTask \<lparr>tasks = tasks s\<rparr> = Some t" by blast
    from getNextTask_Some[OF t] obtain pre post where
      d: "tasks s = pre @ t # post" "status t = Pending"
         "\<forall>u\<in>set pre. status u = Pending \<longrightarrow> priority u < priority t"
         "\<forall>u\<in>set post. status u = Pending \<longrightarrow> priority u \<le> priority t"
      by blast
    from t have "getNextTask s = Some t" by (simp only: s)
    with d show "\<exists>pre t post. tasks s = pre @ t # post \<and> getNextTask s = Some t \<and>
         status t = Pending \<and>
         (\<forall>u\<in>set pre. status u = Pending \<longrightarrow> priority u < priority t) \<and>
         (\<forall>u\<in>set post. status u = Pending \<longrightarrow> priority u \<le> priority t)"
      by blast
  qed
qed

theorem getNextTask_highest_priority_pending_witness:
  "getNextTask \<lparr>tasks = [exampleTask ''a'' 5 Completed None (Some 7)]\<rparr> = None \<and>
   (\<exists>pre t post.
      tasks \<lparr>tasks = [exampleTask ''a'' 2 Pending None None,
                      exampleTask ''b'' 5 Completed None (Some 7),
                      exampleTask ''c'' 4 Pending None None,
                      exampleTask ''d'' 4 Pending None None]\<rparr> = pre @ t # post \<and>
      getNextTask \<lparr>tasks = [exampleTask ''a'' 2 Pending None None,
                      exampleTask ''b'' 5 Completed None (Some 7),
                      exampleTask ''c'' 4 Pending None None,
                      exampleTask ''d'' 4 Pending None None]\<rparr> = Some t \<and>
      status t = Pending \<and>
      (\<forall>u\<in>set pre. status u = Pending \<longrightarrow> priority u < priority t) \<and>
      (\<forall>u\<in>set post. status u = Pending \<longrightarrow> priority u \<le> priority t))"
proof -
  let ?s0 = "\<lparr>tasks = [exampleTask ''a'' 5 Completed None (Some 7)]\<rparr>"
  let ?s1 = "\<lparr>tasks = [exampleTask ''a'' 2 Pending None None,
                      exampleTask ''b'' 5 Completed None (Some 7),
                      exampleTask ''c'' 4 Pending None None,
                      exampleTask ''d'' 4 Pending None None]\<rparr>"
  have "getPendingTasks ?s0 = []"
    by (simp add: getPendingTasks_def getTasksByStatus_def exampleTask_def)
  with getNextTask_highest_priority_pending [of ?s0]
  have 0: "getNextTask ?s0 = None" by blast
  have "getPendingTasks ?s1 \<noteq> []"
    by (simp add: getPendingTasks_def getTasksByStatus_def exampleTask_def)
  with getNextTask_highest_priority_pending [of ?s1]
  have 1: "\<exists>pre t post. tasks ?s1 = pre @ t # post \<and> getNextTask ?s1 = Some t \<and>
      status t = Pending \<and>
      (\<forall>u\<in>set pre. status u = Pending \<longrightarrow> priority u < priority t) \<and>
      (\<forall>u\<in>set post. status u = Pending \<longrightarrow> priority u \<le> priority t)" by blast
  from 0 1 show ?thesis by (rule conjI)
qed

lemma getNextTask_example:
  "getNextTask \<lparr>tasks = [exampleTask ''a'' 2 Pending None None,
                      exampleTask ''b'' 5 Completed None (Some 7),
                      exampleTask ''c'' 4 Pending None None,
                      exampleTask ''d'' 4 Pending None None]\<rparr>
     = Some (exampleTask ''c'' 4 Pending None None)"
  by (simp add: getNextTask_def getPendingTasks_def getTasksByStatus_def sortByPriority_def
      firstOrNull_def exampleTask_def)

section \<open>Sorting by deadline\<close>

text \<open>
  On tasks that all have a deadline the comparator never throws, and the sort is the
  stable insertion sort by the deadline.
\<close>

lemma compareDeadline_Some:
  "deadline a = Some x \<Longrightarrow> deadline b = Some y \<Longrightarrow> compareDeadline a b = Inr (x - y)"
  by (simp add: compareDeadline_def deadlineTime_def)

lemma insertByE_compareDeadline:
  "deadline x \<noteq> None \<Longrightarrow> list_all (\<lambda>t. deadline t \<noteq> None) ys \<Longrightarrow>
   insertByE compareDeadline x ys = Inr (insort_key (\<lambda>t. the (deadline t)) x ys)"
proof (induction ys)
  case Nil
  show ?case by simp
next
  case (Cons y ys)
  from Cons.prems obtain a b where ab: "deadline x = Some a" "deadline y = Some b" by auto
  from Cons.prems have "list_all (\<lambda>t. deadline t \<noteq> None) ys" by simp
  with Cons.IH Cons.prems(1)
  have "insertByE compareDeadline x ys = Inr (insort_key (\<lambda>t. the (deadline t)) x ys)" by simp
  with ab show ?case by (simp add: compareDeadline_Some)
qed

lemma sortByE_compareDeadline:
  "list_all (\<lambda>t. deadline t \<noteq> None) xs \<Longrightarrow>
   sortByE compareDeadline xs = Inr (sort_key (\<lambda>t. the (deadline t)) xs)"
proof (induction xs)
  case Nil
  show ?case by simp
next
  case (Cons x xs)
  then have ih: "sortByE compareDeadline xs = Inr (sort_key (\<lambda>t. the (deadline t)) xs)" by simp
  have "list_all (\<lambda>t. deadline t \<noteq> None) (sort_key (\<lambda>t. the (deadline t)) xs)"
    using Cons.prems by (simp add: list_all_iff)
  with Cons.prems have
    "insertByE compareDeadline x (sort_key (\<lambda>t. the (deadline t)) xs) =
       Inr (insort_key (\<lambda>t. the (deadline t)) x (sort_key (\<lambda>t. the (deadline t)) xs))"
    by (simp add: insertByE_compareDeadline)
  with ih show ?case by simp
qed

lemma sortByDeadline_eq:
  "sortByDeadline ts =
     Inr (sort_key (\<lambda>t. the (deadline t)) (filter (\<lambda>t. deadline t \<noteq> None) ts)
          @ filter (\<lambda>t. deadline t = None) ts)"
proof -
  have "list_all (\<lambda>t. deadline t \<noteq> None) (filter (\<lambda>t. deadline t \<noteq> None) ts)"
    by (simp add: list_all_iff)
  then show ?thesis
    by (simp add: sortByDeadline_def Let_def sortByE_compareDeadline)
qed

lemma sorted_deadlines:
  assumes "sorted (map (\<lambda>t. the (deadline t)) ds)" "\<forall>t\<in>set ds. deadline t \<noteq> None"
  shows "sorted_wrt (\<lambda>a b. \<exists>x y. deadline a = Some x \<and> deadline b = Some y \<and> x \<le> y) ds"
  using assms
proof (induction ds)
  case Nil
  show ?case by simp
next
  case (Cons d ds)
  then show ?case by fastforce
qed

text \<open>
  Claim C8. \<open>sortByDeadline\<close> returns normally, and its result is a list \<open>ds\<close> followed
  by the tasks without a deadline in their original order, where \<open>ds\<close> holds exactly the
  tasks with a deadline (each as often as in the input) in ascending order of deadline;
  the whole result holds every input task exactly as often as the input does.
\<close>

theorem sortByDeadline_spec:
  "\<exists>ds. sortByDeadline ts = Inr (ds @ filter (\<lambda>t. deadline t = None) ts) \<and>
        mset ds = mset (filter (\<lambda>t. deadline t \<noteq> None) ts) \<and>
        sorted_wrt (\<lambda>a b. \<exists>x y. deadline a = Some x \<and> deadline b = Some y \<and> x \<le> y) ds \<and>
        mset (ds @ filter (\<lambda>t. deadline t = None) ts) = mset ts"
proof -
  let ?k = "\<lambda>t. the (deadline t)"
  let ?ds = "sort_key ?k (filter (\<lambda>t. deadline t \<noteq> None) ts)"
  have 1: "sortByDeadline ts = Inr (?ds @ filter (\<lambda>t. deadline t = None) ts)"
    by (rule sortByDeadline_eq)
  have 2: "mset ?ds = mset (filter (\<lambda>t. deadline t \<noteq> None) ts)" by simp
  have "sorted (map ?k ?ds)" by (rule sorted_sort_key)
  moreover have "\<forall>t\<in>set ?ds. deadline t \<noteq> None" by simp
  ultimately have 3:
    "sorted_wrt (\<lambda>a b. \<exists>x y. deadline a = Some x \<and> deadline b = Some y \<and> x \<le> y) ?ds"
    by (rule sorted_deadlines)
  have "mset (?ds @ filter (\<lambda>t. deadline t = None) ts)
          = mset (filter (\<lambda>t. deadline t \<noteq> None) ts) + mset (filter (\<lambda>t. deadline t = None) ts)"
    by simp
  also have "\<dots> = mset ts"
    by (induction ts) simp_all
  finally have 4: "mset (?ds @ filter (\<lambda>t. deadline t = None) ts) = mset ts" .
  from 1 2 3 4 show ?thesis by blast
qed

lemma sortByDeadline_example:
  "sortByDeadline [exampleTask ''a'' 3 Pending None None,
                   exampleTask ''b'' 3 Pending (Some 30) None,
                   exampleTask ''c'' 3 Pending None None,
                   exampleTask ''d'' 3 Pending (Some 10) None]
     = Inr [exampleTask ''d'' 3 Pending (Some 10) None,
            exampleTask ''b'' 3 Pending (Some 30) None,
            exampleTask ''a'' 3 Pending None None,
            exampleTask ''c'' 3 Pending None None]"
  by (simp add: sortByDeadline_def compareDeadline_def deadlineTime_def exampleTask_def)

end
